theory Spec2Isabelle
  imports Main
begin

section \<open>Python values, JSON objects and exceptions\<close>

text \<open>
  The handlers of \<^verbatim>\<open>main.py\<close> read a handful of fields from JSON objects: each is a
  string, \<^verbatim>\<open>null\<close> or absent. A Python value of that kind is a \<open>string option\<close>
  (\<open>None\<close> is Python's \<^verbatim>\<open>None\<close>), and a JSON object is an association list from keys
  to such values, its first binding of a key being the dict's entry.
\<close>

type_synonym pyval = "string option"

type_synonym jdict = "(string \<times> pyval) list"

text \<open>Python truthiness: \<^verbatim>\<open>None\<close> and the empty string are false.\<close>

definition truthy :: "pyval \<Rightarrow> bool" where
  "truthy v = (case v of None \<Rightarrow> False | Some x \<Rightarrow> x \<noteq> [])"

text \<open>\<^verbatim>\<open>a or b\<close>.\<close>

definition py_or :: "pyval \<Rightarrow> pyval \<Rightarrow> pyval" where
  "py_or a b = (if truthy a then a else b)"

text \<open>\<^verbatim>\<open>d.get(k)\<close> and \<^verbatim>\<open>d.get(k, default)\<close>.\<close>

definition dict_get :: "jdict \<Rightarrow> string \<Rightarrow> pyval" where
  "dict_get d k = (case map_of d k of None \<Rightarrow> None | Some v \<Rightarrow> v)"

definition dict_get_default :: "jdict \<Rightarrow> string \<Rightarrow> string \<Rightarrow> pyval" where
  "dict_get_default d k dflt = (case map_of d k of None \<Rightarrow> Some dflt | Some v \<Rightarrow> v)"

text \<open>What an f-string prints for a value: \<^verbatim>\<open>None\<close> prints as the word.\<close>

definition py_str :: "pyval \<Rightarrow> string" where
  "py_str v = (case v of None \<Rightarrow> ''None'' | Some x \<Rightarrow> x)"

text \<open>Decimal rendering of a natural number, as an f-string prints an int.\<close>

fun show_nat :: "nat \<Rightarrow> string" where
  "show_nat n =
     (if n < 10 then [char_of (48 + n)]
      else show_nat (n div 10) @ [char_of (48 + n mod 10)])"

declare show_nat.simps [simp del]

text \<open>
  Every exception of the program is caught by \<^verbatim>\<open>except Exception as e\<close> and only
  \<^verbatim>\<open>str(e)\<close> is ever used, so an exception is its message.
\<close>

datatype error = Exception (str: string)

section \<open>The providers\<close>

text \<open>
  A \<^verbatim>\<open>requests\<close> response: its status code, its body as text and as bytes, and what
  \<^verbatim>\<open>.json()\<close> gives (\<open>Inl\<close> when it raises).
\<close>

record 'j http_response =
  status_code :: nat
  resp_text :: string
  resp_content :: string
  resp_json :: "error + 'j"

text \<open>
  The world a request runs in: the clock, and the answer of each provider to each request
  (\<open>Inl\<close> when the HTTP library raises). A poll is answered by its URL and by how many
  polls of the request came before it. \<open>gemini_client\<close> is \<open>None\<close> when no key is
  configured; otherwise it gives the \<^verbatim>\<open>.text\<close> of the reply to a prompt.
\<close>

record world =
  time_time :: nat
  assembly_upload :: "string \<Rightarrow> error + jdict http_response"
  assembly_transcript :: "pyval \<Rightarrow> error + jdict http_response"
  assembly_poll :: "string \<Rightarrow> nat \<Rightarrow> error + jdict http_response"
  gemini_client :: "(pyval \<Rightarrow> error + pyval) option"
  murf_voices :: "error + (jdict list) http_response"
  murf_generate :: "pyval \<Rightarrow> string \<Rightarrow> error + jdict http_response"
  http_get :: "string \<Rightarrow> error + unit http_response"

text \<open>The requests a handler sends, and its sleeps, in the order they happen.\<close>

datatype call =
    Upload string
  | StartTranscription pyval
  | Poll string
  | Sleep nat
  | GeminiGenerate pyval
  | MurfVoices
  | MurfGenerate pyval string
  | Download string

text \<open>A turn of a conversation: \<^verbatim>\<open>{"role": ..., "content": ...}\<close>.\<close>

record turn =
  role :: string
  content :: pyval

text \<open>
  The state of the process: \<^verbatim>\<open>chat_store\<close>, the files of the working directory, and the
  trace of the calls made so far.
\<close>

record state =
  chat_store :: "string \<rightharpoonup> turn list"
  files :: "string \<rightharpoonup> string"
  calls :: "call list"

definition log :: "call \<Rightarrow> state \<Rightarrow> state" where
  "log c s = s\<lparr>calls := calls s @ [c]\<rparr>"

definition is_poll :: "call \<Rightarrow> bool" where
  "is_poll c = (case c of Poll u \<Rightarrow> True | _ \<Rightarrow> False)"

section \<open>Helper functions of main.py\<close>

definition ok_status :: "nat \<Rightarrow> bool" where
  "ok_status c = (c = 200 \<or> c = 201)"

text \<open>
  \<^verbatim>\<open>poll_transcription\<close>: the body of the \<^verbatim>\<open>for\<close> loop, with the number of iterations
  left and the number of polls already made.
\<close>

fun poll_loop :: "world \<Rightarrow> string \<Rightarrow> nat \<Rightarrow> nat \<Rightarrow> nat \<Rightarrow> state \<Rightarrow> (error + pyval) \<times> state" where
  "poll_loop w poll_url interval 0 i s = (Inl (Exception ''Transcription timed out''), s)"
| "poll_loop w poll_url interval (Suc n) i s =
     (let s1 = log (Poll poll_url) s in
      case assembly_poll w poll_url i of
        Inl e \<Rightarrow> (Inl e, s1)
      | Inr r \<Rightarrow>
          if status_code r \<noteq> 200 then
            (Inl (Exception (''AssemblyAI poll failed: '' @ show_nat (status_code r) @ '' '' @ resp_text r)), s1)
          else
            (case resp_json r of
               Inl e \<Rightarrow> (Inl e, s1)
             | Inr j \<Rightarrow>
                 if dict_get j ''status'' = Some ''completed'' then
                   (Inr (dict_get_default j ''text'' ''''), s1)
                 else if dict_get j ''status'' = Some ''error'' then
                   (Inl (Exception (''AssemblyAI transcription error: '' @ py_str (dict_get j ''error''))), s1)
                 else poll_loop w poll_url interval n (Suc i) (log (Sleep interval) s1)))"

definition poll_transcription :: "world \<Rightarrow> pyval \<Rightarrow> int \<Rightarrow> nat \<Rightarrow> state \<Rightarrow> (error + pyval) \<times> state" where
  "poll_transcription w transcript_id max_tries interval s =
     poll_loop w (''https://api.assemblyai.com/v2/transcript/'' @ py_str transcript_id)
       interval (nat max_tries) 0 s"

text \<open>What a poll says about the job, when it answers with HTTP 200 and a JSON object.\<close>

definition poll_pending :: "error + jdict http_response \<Rightarrow> bool" where
  "poll_pending x =
     (case x of Inl e \<Rightarrow> False
      | Inr r \<Rightarrow> status_code r = 200 \<and>
          (case resp_json r of Inl e \<Rightarrow> False
           | Inr j \<Rightarrow> dict_get j ''status'' \<noteq> Some ''completed'' \<and> dict_get j ''status'' \<noteq> Some ''error''))"

definition poll_completed :: "error + jdict http_response \<Rightarrow> pyval \<Rightarrow> bool" where
  "poll_completed x t =
     (case x of Inl e \<Rightarrow> False
      | Inr r \<Rightarrow> status_code r = 200 \<and>
          (case resp_json r of Inl e \<Rightarrow> False
           | Inr j \<Rightarrow> dict_get j ''status'' = Some ''completed'' \<and> dict_get_default j ''text'' '''' = t))"

definition poll_error :: "error + jdict http_response \<Rightarrow> pyval \<Rightarrow> bool" where
  "poll_error x d =
     (case x of Inl e \<Rightarrow> False
      | Inr r \<Rightarrow> status_code r = 200 \<and>
          (case resp_json r of Inl e \<Rightarrow> False
           | Inr j \<Rightarrow> dict_get j ''status'' = Some ''error'' \<and> dict_get j ''error'' = d))"

definition poll_non200 :: "error + jdict http_response \<Rightarrow> nat \<Rightarrow> string \<Rightarrow> bool" where
  "poll_non200 x c t =
     (case x of Inl e \<Rightarrow> False
      | Inr r \<Rightarrow> status_code r \<noteq> 200 \<and> status_code r = c \<and> resp_text r = t)"

text \<open>The polls of a trace.\<close>

definition polls :: "call list \<Rightarrow> call list" where
  "polls cs = filter is_poll cs"


text \<open>What \<^verbatim>\<open>open\<close> and \<^verbatim>\<open>os.remove\<close> raise on a missing file.\<close>

definition file_not_found :: "string \<Rightarrow> error" where
  "file_not_found p =
     Exception (''[Errno 2] No such file or directory: '' @ [CHR 0x27] @ p @ [CHR 0x27])"

definition upload_to_assemblyai :: "world \<Rightarrow> string \<Rightarrow> state \<Rightarrow> (error + pyval) \<times> state" where
  "upload_to_assemblyai w file_path s =
     (case files s file_path of
        None \<Rightarrow> (Inl (file_not_found file_path), s)
      | Some f \<Rightarrow>
          (let s1 = log (Upload f) s in
           case assembly_upload w f of
             Inl e \<Rightarrow> (Inl e, s1)
           | Inr resp \<Rightarrow>
               if \<not> ok_status (status_code resp) then
                 (Inl (Exception (''AssemblyAI upload failed: '' @ show_nat (status_code resp) @ '' '' @ resp_text resp)), s1)
               else
                 (case resp_json resp of
                    Inl e \<Rightarrow> (Inl e, s1)
                  | Inr j \<Rightarrow> (Inr (dict_get j ''upload_url''), s1))))"

definition start_transcription :: "world \<Rightarrow> pyval \<Rightarrow> state \<Rightarrow> (error + pyval) \<times> state" where
  "start_transcription w upload_url s =
     (let s1 = log (StartTranscription upload_url) s in
      case assembly_transcript w upload_url of
        Inl e \<Rightarrow> (Inl e, s1)
      | Inr resp \<Rightarrow>
          if \<not> ok_status (status_code resp) then
            (Inl (Exception (''AssemblyAI start transcription failed: '' @ show_nat (status_code resp) @ '' '' @ resp_text resp)), s1)
          else
            (case resp_json resp of
               Inl e \<Rightarrow> (Inl e, s1)
             | Inr j \<Rightarrow> (Inr (dict_get j ''id''), s1)))"

definition gemini_generate :: "world \<Rightarrow> pyval \<Rightarrow> state \<Rightarrow> (error + pyval) \<times> state" where
  "gemini_generate w prompt s =
     (case gemini_client w of
        None \<Rightarrow> (Inl (Exception ''Gemini client not initialized (GEMINI_API_KEY missing)''), s)
      | Some client \<Rightarrow> (client prompt, log (GeminiGenerate prompt) s))"

definition get_murf_voice_id :: "world \<Rightarrow> state \<Rightarrow> (error + pyval) \<times> state" where
  "get_murf_voice_id w s =
     (let s1 = log MurfVoices s in
      case murf_voices w of
        Inl e \<Rightarrow> (Inl e, s1)
      | Inr r \<Rightarrow>
          if status_code r \<noteq> 200 then
            (Inl (Exception (''Failed to fetch Murf voices: '' @ show_nat (status_code r) @ '' '' @ resp_text r)), s1)
          else
            (case resp_json r of
               Inl e \<Rightarrow> (Inl e, s1)
             | Inr voices \<Rightarrow>
                 (case voices of
                    [] \<Rightarrow> (Inl (Exception ''Unexpected voices format from Murf''), s1)
                  | v # vs \<Rightarrow> (Inr (dict_get v ''voiceId''), s1))))"

text \<open>
  \<^verbatim>\<open>generate_murf_audio_and_save\<close>. \<^verbatim>\<open>len(None)\<close> raises a \<^verbatim>\<open>TypeError\<close>; the write of
  the output file replaces what the file held.
\<close>

definition generate_murf_audio_and_save :: "world \<Rightarrow> pyval \<Rightarrow> string \<Rightarrow> state \<Rightarrow> (error + string) \<times> state" where
  "generate_murf_audio_and_save w text_arg out_path s =
     (case text_arg of
        None \<Rightarrow> (Inl (Exception (''object of type '' @ [CHR 0x27] @ ''NoneType'' @ [CHR 0x27] @ '' has no len()'')), s)
      | Some t0 \<Rightarrow>
          (let t = (if length t0 > 3000 then take 3000 t0 else t0) in
           case get_murf_voice_id w s of
             (Inl e, s1) \<Rightarrow> (Inl e, s1)
           | (Inr voice_id, s1) \<Rightarrow>
               (let s2 = log (MurfGenerate voice_id t) s1 in
                case murf_generate w voice_id t of
                  Inl e \<Rightarrow> (Inl e, s2)
                | Inr r \<Rightarrow>
                    if \<not> ok_status (status_code r) then
                      (Inl (Exception (''Murf TTS failed: '' @ show_nat (status_code r) @ '' '' @ resp_text r)), s2)
                    else
                      (case resp_json r of
                         Inl e \<Rightarrow> (Inl e, s2)
                       | Inr j \<Rightarrow>
                           (case dict_get j ''audioFile'' of
                              None \<Rightarrow> (Inl (Exception ''Murf returned no audioFile URL''), s2)
                            | Some audio_url \<Rightarrow>
                                if audio_url = [] then (Inl (Exception ''Murf returned no audioFile URL''), s2)
                                else
                                  (let s3 = log (Download audio_url) s2 in
                                   case http_get w audio_url of
                                     Inl e \<Rightarrow> (Inl e, s3)
                                   | Inr audio_data \<Rightarrow>
                                       if status_code audio_data \<noteq> 200 then
                                         (Inl (Exception (''Failed to download Murf audio: '' @ show_nat (status_code audio_data))), s3)
                                       else
                                         (Inr out_path, s3\<lparr>files := (files s3)(out_path \<mapsto> resp_content audio_data)\<rparr>)))))))"

section \<open>Strings\<close>

text \<open>
  \<^verbatim>\<open>str.strip()\<close> drops the white space at both ends. The characters of a \<open>string\<close> are
  the code points below 256, and these are the ones of them that Python counts as white space.
\<close>

definition is_space :: "char \<Rightarrow> bool" where
  "is_space c = ((of_char c :: nat) \<in> {9, 10, 11, 12, 13, 28, 29, 30, 31, 32, 133, 160})"

definition strip :: "string \<Rightarrow> string" where
  "strip x = rev (dropWhile is_space (rev (dropWhile is_space x)))"

text \<open>\<^verbatim>\<open>str.capitalize()\<close> on ASCII: the first letter in upper case, the others in lower case.\<close>

definition upper_char :: "char \<Rightarrow> char" where
  "upper_char c =
     (if 97 \<le> (of_char c :: nat) \<and> (of_char c :: nat) \<le> 122 then char_of ((of_char c :: nat) - 32) else c)"

definition lower_char :: "char \<Rightarrow> char" where
  "lower_char c =
     (if 65 \<le> (of_char c :: nat) \<and> (of_char c :: nat) \<le> 90 then char_of ((of_char c :: nat) + 32) else c)"

definition capitalize :: "string \<Rightarrow> string" where
  "capitalize x = (case x of [] \<Rightarrow> [] | c # cs \<Rightarrow> upper_char c # map lower_char cs)"

text \<open>\<^verbatim>\<open>sep.join(xs)\<close>.\<close>

fun join :: "string \<Rightarrow> string list \<Rightarrow> string" where
  "join sep [] = []"
| "join sep [x] = x"
| "join sep (x # y # ys) = x @ sep @ join sep (y # ys)"

text \<open>\<^verbatim>\<open>sub in x\<close> on strings.\<close>

fun py_in :: "string \<Rightarrow> string \<Rightarrow> bool" where
  "py_in sub [] = (sub = [])"
| "py_in sub (c # cs) = (take (length sub) (c # cs) = sub \<or> py_in sub cs)"

section \<open>Responses and files\<close>

record response =
  status :: nat
  body :: jdict

definition JSONResponse :: "nat \<Rightarrow> jdict \<Rightarrow> response" where
  "JSONResponse code c = \<lparr>status = code, body = c\<rparr>"

text \<open>A handler that returns a dict answers with HTTP 200.\<close>

definition return_dict :: "jdict \<Rightarrow> response" where
  "return_dict c = \<lparr>status = 200, body = c\<rparr>"

definition FALLBACK_AUDIO_URL :: string where
  "FALLBACK_AUDIO_URL = ''/static/fallback.mp3''"

text \<open>\<^verbatim>\<open>f"temp_{int(time.time())}.webm"\<close>.\<close>

definition temp_filename :: "world \<Rightarrow> string" where
  "temp_filename w = ''temp_'' @ show_nat (time_time w) @ ''.webm''"

text \<open>The upload is copied into the temporary file.\<close>

definition save_upload :: "string \<Rightarrow> string \<Rightarrow> state \<Rightarrow> state" where
  "save_upload path f s = s\<lparr>files := (files s)(path \<mapsto> f)\<rparr>"

text \<open>\<^verbatim>\<open>os.remove(path)\<close>, which raises when the file is not there.\<close>

definition os_remove :: "string \<Rightarrow> state \<Rightarrow> error + state" where
  "os_remove path s =
     (case files s path of
        None \<Rightarrow> Inl (file_not_found path)
      | Some f \<Rightarrow> Inr (s\<lparr>files := (files s)(path := None)\<rparr>))"

text \<open>\<^verbatim>\<open>try: os.remove(path)\<close> \<^verbatim>\<open>except Exception: pass\<close>.\<close>

definition try_remove :: "string \<Rightarrow> state \<Rightarrow> state" where
  "try_remove path s = (case os_remove path s of Inl e \<Rightarrow> s | Inr s' \<Rightarrow> s')"

section \<open>Handlers of main.py\<close>

text \<open>\<^verbatim>\<open>POST /gemini\<close>. FastAPI hands the handler a dict.\<close>

definition gemini_chat :: "world \<Rightarrow> jdict \<Rightarrow> state \<Rightarrow> response \<times> state" where
  "gemini_chat w payload s =
     (let prompt = py_or (py_or (dict_get payload ''prompt'') (dict_get payload ''text'')) (Some '''') in
      if \<not> truthy prompt then
        (JSONResponse 400 [(''error'', Some ''Prompt or text field is required'')], s)
      else
        (case gemini_generate w prompt s of
           (Inr t, s1) \<Rightarrow> (return_dict [(''response'', t)], s1)
         | (Inl e, s1) \<Rightarrow>
             (JSONResponse 500 [(''error'', Some ''Failed to generate response''),
                (''details'', Some (str e)), (''audio_file'', Some FALLBACK_AUDIO_URL)], s1)))"

text \<open>
  The three statements of the \<^verbatim>\<open># STT\<close> \<^verbatim>\<open>try\<close> block, the same in
  \<^verbatim>\<open>echobot_voice\<close>, \<^verbatim>\<open>llm_query\<close> and \<^verbatim>\<open>gemini_voice\<close>.
\<close>

definition stt_block :: "world \<Rightarrow> string \<Rightarrow> state \<Rightarrow> (error + pyval) \<times> state" where
  "stt_block w temp s =
     (case upload_to_assemblyai w temp s of
        (Inl e, s1) \<Rightarrow> (Inl e, s1)
      | (Inr upload_url, s1) \<Rightarrow>
          (case start_transcription w upload_url s1 of
             (Inl e, s2) \<Rightarrow> (Inl e, s2)
           | (Inr transcript_id, s2) \<Rightarrow> poll_transcription w transcript_id 60 3 s2))"

definition failed :: "string \<Rightarrow> error \<Rightarrow> response" where
  "failed what e =
     JSONResponse 500 [(''error'', Some what), (''details'', Some (str e)),
       (''audio_file'', Some FALLBACK_AUDIO_URL)]"

text \<open>\<^verbatim>\<open>POST /echobot/voice/{session_id}\<close>.\<close>

definition echobot_voice :: "world \<Rightarrow> string \<Rightarrow> string \<Rightarrow> state \<Rightarrow> response \<times> state" where
  "echobot_voice w session_id file s =
     (let temp = temp_filename w; s0 = save_upload temp file s in
      case stt_block w temp s0 of
        (Inl e, s1) \<Rightarrow> (failed ''STT failed'' e, try_remove temp s1)
      | (Inr transcript_text, s1) \<Rightarrow>
          (case generate_murf_audio_and_save w transcript_text ''murf_output.mp3'' s1 of
             (Inl e, s2) \<Rightarrow> (failed ''TTS failed'' e, try_remove temp s2)
           | (Inr p, s2) \<Rightarrow>
               (return_dict [(''transcript'', transcript_text), (''audio_file'', Some ''/play-audio'')],
                try_remove temp s2)))"

text \<open>\<^verbatim>\<open>gemini_generate(...).strip()\<close>: \<^verbatim>\<open>None\<close> has no \<^verbatim>\<open>strip\<close>.\<close>

definition generate_and_strip :: "world \<Rightarrow> pyval \<Rightarrow> state \<Rightarrow> (error + string) \<times> state" where
  "generate_and_strip w prompt s =
     (case gemini_generate w prompt s of
        (Inl e, s1) \<Rightarrow> (Inl e, s1)
      | (Inr r, s1) \<Rightarrow>
          (case r of
             None \<Rightarrow>
               (Inl (Exception ([CHR 0x27] @ ''NoneType'' @ [CHR 0x27] @ '' object has no attribute ''
                  @ [CHR 0x27] @ ''strip'' @ [CHR 0x27])), s1)
           | Some x \<Rightarrow> (Inr (strip x), s1)))"

text \<open>
  A request to \<^verbatim>\<open>POST /llm/query\<close>: its content type (the empty string when the header is
  missing), the uploaded file if there is one, and what \<^verbatim>\<open>request.json()\<close> gives.
\<close>

record request =
  content_type :: string
  request_file :: "string option"
  request_json :: "error + jdict"

definition llm_query_audio :: "world \<Rightarrow> string \<Rightarrow> state \<Rightarrow> response \<times> state" where
  "llm_query_audio w file s =
     (let temp = temp_filename w; s0 = save_upload temp file s in
      case stt_block w temp s0 of
        (Inl e, s1) \<Rightarrow> (failed ''STT failed'' e, try_remove temp s1)
      | (Inr transcript_text, s1) \<Rightarrow>
          (case generate_and_strip w transcript_text s1 of
             (Inl e, s2) \<Rightarrow> (failed ''LLM failed'' e, try_remove temp s2)
           | (Inr llm_reply, s2) \<Rightarrow>
               (case generate_murf_audio_and_save w (Some llm_reply) ''murf_output.mp3'' s2 of
                  (Inl e, s3) \<Rightarrow> (failed ''TTS failed'' e, try_remove temp s3)
                | (Inr p, s3) \<Rightarrow>
                    (return_dict [(''transcript'', transcript_text), (''llm_response'', Some llm_reply),
                       (''audio_file'', Some ''/play-audio'')],
                     try_remove temp s3))))"

definition llm_query_text :: "world \<Rightarrow> request \<Rightarrow> state \<Rightarrow> response \<times> state" where
  "llm_query_text w req s =
     (case request_json req of
        Inl e \<Rightarrow>
          (JSONResponse 500 [(''error'', Some (str e)), (''audio_file'', Some FALLBACK_AUDIO_URL)], s)
      | Inr data \<Rightarrow>
          (let prompt = py_or (py_or (dict_get data ''text'') (dict_get data ''prompt'')) (Some '''') in
           if \<not> truthy prompt then
             (JSONResponse 400 [(''error'', Some ''Text or prompt field is required''),
                (''audio_file'', Some FALLBACK_AUDIO_URL)], s)
           else
             (case gemini_generate w prompt s of
                (Inr t, s1) \<Rightarrow> (return_dict [(''response'', t)], s1)
              | (Inl e, s1) \<Rightarrow>
                  (JSONResponse 500 [(''error'', Some (str e)), (''audio_file'', Some FALLBACK_AUDIO_URL)], s1))))"

definition llm_query :: "world \<Rightarrow> request \<Rightarrow> state \<Rightarrow> response \<times> state" where
  "llm_query w req s =
     (if request_file req \<noteq> None \<or> py_in ''multipart/form-data'' (content_type req) then
        (case request_file req of
           None \<Rightarrow>
             (JSONResponse 400 [(''error'', Some ''No audio file provided''),
                (''audio_file'', Some FALLBACK_AUDIO_URL)], s)
         | Some file \<Rightarrow> llm_query_audio w file s)
      else llm_query_text w req s)"

text \<open>\<^verbatim>\<open>POST /voice/text\<close>.\<close>

definition voice_text :: "world \<Rightarrow> jdict \<Rightarrow> state \<Rightarrow> response \<times> state" where
  "voice_text w payload s =
     (let text_arg = py_or (py_or (dict_get payload ''text'') (dict_get payload ''prompt'')) (Some '''') in
      if \<not> truthy text_arg then
        (JSONResponse 400 [(''error'', Some ''Text is required''),
           (''audio_file'', Some FALLBACK_AUDIO_URL)], s)
      else
        (case generate_murf_audio_and_save w text_arg ''murf_output.mp3'' s of
           (Inr p, s1) \<Rightarrow> (return_dict [(''reply'', text_arg), (''audio_file'', Some ''/play-audio'')], s1)
         | (Inl e, s1) \<Rightarrow> (failed ''TTS failed'' e, s1)))"

text \<open>
  \<^verbatim>\<open>POST /gemini/voice/{session_id}\<close>. The history of a session, which is created empty on
  first use, and the prompt the handler builds from it.
\<close>

definition history_of :: "state \<Rightarrow> string \<Rightarrow> turn list" where
  "history_of s session_id = (case chat_store s session_id of None \<Rightarrow> [] | Some h \<Rightarrow> h)"

definition append_turn :: "string \<Rightarrow> turn \<Rightarrow> state \<Rightarrow> state" where
  "append_turn session_id t s =
     s\<lparr>chat_store := (chat_store s)(session_id \<mapsto> history_of s session_id @ [t])\<rparr>"

definition history_text :: "turn list \<Rightarrow> string" where
  "history_text h = join [CHR 0x0A] (map (\<lambda>m. capitalize (role m) @ '': '' @ py_str (content m)) h)"

definition full_prompt :: "turn list \<Rightarrow> string" where
  "full_prompt h =
     ''You are a helpful assistant. Continue the conversation based on the history below.''
       @ [CHR 0x0A, CHR 0x0A] @ history_text h @ [CHR 0x0A] @ ''Assistant:''"

definition canned_failure :: string where
  "canned_failure = ''I'' @ [CHR 0x27] @ ''m having trouble generating a response right now.''"

definition gemini_voice :: "world \<Rightarrow> string \<Rightarrow> string \<Rightarrow> state \<Rightarrow> response \<times> state" where
  "gemini_voice w session_id file s =
     (let temp = temp_filename w; s0 = save_upload temp file s in
      case stt_block w temp s0 of
        (Inl e, s1) \<Rightarrow> (failed ''STT failed'' e, try_remove temp s1)
      | (Inr transcript_text, s1) \<Rightarrow>
          (let s2 = append_turn session_id \<lparr>role = ''user'', content = transcript_text\<rparr> s1 in
           case generate_and_strip w (Some (full_prompt (history_of s2 session_id))) s2 of
             (Inl e, s3) \<Rightarrow>
               (failed ''LLM failed'' e,
                try_remove temp
                  (append_turn session_id \<lparr>role = ''assistant'', content = Some canned_failure\<rparr> s3))
           | (Inr llm_reply, s3) \<Rightarrow>
               (let s4 = append_turn session_id \<lparr>role = ''assistant'', content = Some llm_reply\<rparr> s3 in
                case generate_murf_audio_and_save w (Some llm_reply) ''murf_output.mp3'' s4 of
                  (Inl e, s5) \<Rightarrow> (failed ''TTS failed'' e, try_remove temp s5)
                | (Inr p, s5) \<Rightarrow>
                    (return_dict [(''transcript'', transcript_text), (''reply'', Some llm_reply),
                       (''audio_file'', Some ''/play-audio'')],
                     try_remove temp s5))))"

text \<open>Requests to \<^verbatim>\<open>/gemini/voice/{session_id}\<close> for one session, one after the other.\<close>

fun gemini_voice_run :: "(world \<times> string) list \<Rightarrow> string \<Rightarrow> state \<Rightarrow> response list \<times> state" where
  "gemini_voice_run [] session_id s = ([], s)"
| "gemini_voice_run ((w, file) # reqs) session_id s =
     (case gemini_voice w session_id file s of
        (r, s1) \<Rightarrow> (case gemini_voice_run reqs session_id s1 of (rs, s2) \<Rightarrow> (r # rs, s2)))"

section \<open>The two echo handlers written inline\<close>

text \<open>
  The poll loop of \<^verbatim>\<open>echo_bot\<close>, the same in \<^verbatim>\<open>main.py\<close> and \<^verbatim>\<open>templates/main.py\<close>: it
  does not look at the status code. It ends by an exception, by \<^verbatim>\<open>break\<close> with the text,
  by the \<^verbatim>\<open>return\<close> of the error branch, or by running out of iterations.
\<close>

datatype poll_outcome = Raised error | Completed pyval | Failed pyval | Exhausted

fun echo_poll_loop :: "world \<Rightarrow> string \<Rightarrow> nat \<Rightarrow> nat \<Rightarrow> state \<Rightarrow> poll_outcome \<times> state" where
  "echo_poll_loop w poll_url 0 i s = (Exhausted, s)"
| "echo_poll_loop w poll_url (Suc n) i s =
     (let s1 = log (Poll poll_url) s in
      case assembly_poll w poll_url i of
        Inl e \<Rightarrow> (Raised e, s1)
      | Inr poll_resp \<Rightarrow>
          (case resp_json poll_resp of
             Inl e \<Rightarrow> (Raised e, s1)
           | Inr poll_json \<Rightarrow>
               if dict_get poll_json ''status'' = Some ''completed'' then
                 (Completed (dict_get_default poll_json ''text'' ''''), s1)
               else if dict_get poll_json ''status'' = Some ''error'' then
                 (Failed (dict_get poll_json ''error''), s1)
               else echo_poll_loop w poll_url n (Suc i) (log (Sleep 3) s1)))"

text \<open>
  \<^verbatim>\<open>os.remove(temp_filename)\<close> followed by \<^verbatim>\<open>return r\<close>, inside the outer \<^verbatim>\<open>try\<close> whose
  handler answers with \<open>on_exc\<close>.
\<close>

definition remove_and_return :: "(error \<Rightarrow> response) \<Rightarrow> string \<Rightarrow> response \<Rightarrow> state \<Rightarrow> response \<times> state" where
  "remove_and_return on_exc path r s =
     (case os_remove path s of Inl e \<Rightarrow> (on_exc e, s) | Inr s' \<Rightarrow> (r, s'))"

subsection \<open>echo\_bot of main.py\<close>

definition unexpected_error :: "error \<Rightarrow> response" where
  "unexpected_error e = failed ''Unexpected error'' e"

definition murf_tts_error :: "error \<Rightarrow> response" where
  "murf_tts_error e = failed ''Murf TTS error'' e"

definition echo_bot_murf :: "world \<Rightarrow> string \<Rightarrow> state \<Rightarrow> response \<times> state" where
  "echo_bot_murf w transcript_text s =
     (let s1 = log MurfVoices s in
      case murf_voices w of
        Inl e \<Rightarrow> (murf_tts_error e, s1)
      | Inr voices_resp \<Rightarrow>
          if status_code voices_resp \<noteq> 200 then
            (JSONResponse 500 [(''error'', Some ''Failed to fetch voices''),
               (''details'', Some (resp_text voices_resp)), (''audio_file'', Some FALLBACK_AUDIO_URL)], s1)
          else
            (case resp_json voices_resp of
               Inl e \<Rightarrow> (murf_tts_error e, s1)
             | Inr voices \<Rightarrow>
                 (case voices of
                    [] \<Rightarrow> (murf_tts_error (Exception ''list index out of range''), s1)
                  | v # vs \<Rightarrow>
                      (let voice_id = dict_get v ''voiceId'';
                           s2 = log (MurfGenerate voice_id transcript_text) s1 in
                       case murf_generate w voice_id transcript_text of
                         Inl e \<Rightarrow> (murf_tts_error e, s2)
                       | Inr murf_response \<Rightarrow>
                           if \<not> ok_status (status_code murf_response) then
                             (JSONResponse 500 [(''error'', Some ''Murf API failed''),
                                (''details'', Some (resp_text murf_response)),
                                (''audio_file'', Some FALLBACK_AUDIO_URL)], s2)
                           else
                             (case resp_json murf_response of
                                Inl e \<Rightarrow> (murf_tts_error e, s2)
                              | Inr murf_json \<Rightarrow>
                                  if \<not> truthy (dict_get murf_json ''audioFile'') then
                                    (JSONResponse 500 [(''error'', Some ''No audio file returned''),
                                       (''audio_file'', Some FALLBACK_AUDIO_URL)], s2)
                                  else
                                    (let audio_url = py_str (dict_get murf_json ''audioFile'');
                                         s3 = log (Download audio_url) s2 in
                                     case http_get w audio_url of
                                       Inl e \<Rightarrow> (murf_tts_error e, s3)
                                     | Inr audio_data \<Rightarrow>
                                         (return_dict [(''audio_file'', Some ''/play-audio''),
                                            (''transcript'', Some transcript_text)],
                                          s3\<lparr>files := (files s3)(''murf_output.mp3'' \<mapsto> resp_content audio_data)\<rparr>)))))))"

text \<open>From the end of the poll loop on: \<open>transcript_text\<close> is \<open>None\<close> when the loop ran out.\<close>

definition echo_bot_after_poll :: "world \<Rightarrow> string \<Rightarrow> pyval \<Rightarrow> state \<Rightarrow> response \<times> state" where
  "echo_bot_after_poll w temp transcript_text s =
     (case os_remove temp s of
        Inl e \<Rightarrow> (unexpected_error e, s)
      | Inr s1 \<Rightarrow>
          if \<not> truthy transcript_text then
            (JSONResponse 504 [(''error'', Some ''Transcription timed out.''),
               (''audio_file'', Some FALLBACK_AUDIO_URL)], s1)
          else echo_bot_murf w (py_str transcript_text) s1)"

definition echo_bot :: "world \<Rightarrow> string \<Rightarrow> state \<Rightarrow> response \<times> state" where
  "echo_bot w file s =
     (let temp = temp_filename w; s0 = save_upload temp file s in
      case files s0 temp of
        None \<Rightarrow> (unexpected_error (file_not_found temp), s0)
      | Some f \<Rightarrow>
          (let s1 = log (Upload f) s0 in
           case assembly_upload w f of
             Inl e \<Rightarrow> (unexpected_error e, s1)
           | Inr upload_resp \<Rightarrow>
               if \<not> ok_status (status_code upload_resp) then
                 remove_and_return unexpected_error temp
                   (JSONResponse 500 [(''error'', Some ''Upload failed''),
                      (''details'', Some (resp_text upload_resp)),
                      (''audio_file'', Some FALLBACK_AUDIO_URL)]) s1
               else
                 (case resp_json upload_resp of
                    Inl e \<Rightarrow> (unexpected_error e, s1)
                  | Inr upload_json \<Rightarrow>
                      (let upload_url = dict_get upload_json ''upload_url'' in
                       if \<not> truthy upload_url then
                         remove_and_return unexpected_error temp
                           (JSONResponse 500 [(''error'', Some ''Upload URL missing''),
                              (''audio_file'', Some FALLBACK_AUDIO_URL)]) s1
                       else
                         (let s2 = log (StartTranscription upload_url) s1 in
                          case assembly_transcript w upload_url of
                            Inl e \<Rightarrow> (unexpected_error e, s2)
                          | Inr transcript_resp \<Rightarrow>
                              if \<not> ok_status (status_code transcript_resp) then
                                remove_and_return unexpected_error temp
                                  (JSONResponse 500 [(''error'', Some ''Transcription start failed''),
                                     (''details'', Some (resp_text transcript_resp)),
                                     (''audio_file'', Some FALLBACK_AUDIO_URL)]) s2
                              else
                                (case resp_json transcript_resp of
                                   Inl e \<Rightarrow> (unexpected_error e, s2)
                                 | Inr transcript_json \<Rightarrow>
                                     (let transcript_id = dict_get transcript_json ''id'' in
                                      if \<not> truthy transcript_id then
                                        remove_and_return unexpected_error temp
                                          (JSONResponse 500 [(''error'', Some ''Transcript ID missing''),
                                             (''audio_file'', Some FALLBACK_AUDIO_URL)]) s2
                                      else
                                        (case echo_poll_loop w
                                                (''https://api.assemblyai.com/v2/transcript/'' @ py_str transcript_id)
                                                20 0 s2 of
                                           (Raised e, s3) \<Rightarrow> (unexpected_error e, s3)
                                         | (Failed d, s3) \<Rightarrow>
                                             remove_and_return unexpected_error temp
                                               (JSONResponse 500 [(''error'', d),
                                                  (''audio_file'', Some FALLBACK_AUDIO_URL)]) s3
                                         | (Completed t, s3) \<Rightarrow> echo_bot_after_poll w temp t s3
                                         | (Exhausted, s3) \<Rightarrow> echo_bot_after_poll w temp None s3))))))))"

subsection \<open>echo\_bot of templates/main.py\<close>

text \<open>
  The older handler: it accepts only HTTP 200, uses a fixed voice, and none of its error
  bodies has an \<^verbatim>\<open>audio_file\<close> entry.
\<close>

definition tpl_unexpected_error :: "error \<Rightarrow> response" where
  "tpl_unexpected_error e =
     JSONResponse 500 [(''error'', Some ''Unexpected error''), (''details'', Some (str e))]"

definition tpl_echo_bot_murf :: "world \<Rightarrow> string \<Rightarrow> state \<Rightarrow> response \<times> state" where
  "tpl_echo_bot_murf w transcript_text s =
     (let s1 = log (MurfGenerate (Some ''en-US-male'') transcript_text) s in
      case murf_generate w (Some ''en-US-male'') transcript_text of
        Inl e \<Rightarrow> (tpl_unexpected_error e, s1)
      | Inr murf_response \<Rightarrow>
          if status_code murf_response \<noteq> 200 then
            (JSONResponse 500 [(''error'', Some ''Murf API failed''),
               (''details'', Some (resp_text murf_response))], s1)
          else
            (case resp_json murf_response of
               Inl e \<Rightarrow> (tpl_unexpected_error e, s1)
             | Inr murf_json \<Rightarrow>
                 if \<not> truthy (dict_get murf_json ''audioFile'') then
                   (JSONResponse 500 [(''error'', Some ''No audio file returned from Murf'')], s1)
                 else
                   (let audio_url = py_str (dict_get murf_json ''audioFile'');
                        s2 = log (Download audio_url) s1 in
                    case http_get w audio_url of
                      Inl e \<Rightarrow> (tpl_unexpected_error e, s2)
                    | Inr audio_data \<Rightarrow>
                        (return_dict [(''audio_file'', Some ''/play-audio''),
                           (''transcript'', Some transcript_text)],
                         s2\<lparr>files := (files s2)(''murf_output.mp3'' \<mapsto> resp_content audio_data)\<rparr>))))"

definition tpl_echo_bot_after_poll :: "world \<Rightarrow> string \<Rightarrow> pyval \<Rightarrow> state \<Rightarrow> response \<times> state" where
  "tpl_echo_bot_after_poll w temp transcript_text s =
     (case os_remove temp s of
        Inl e \<Rightarrow> (tpl_unexpected_error e, s)
      | Inr s1 \<Rightarrow>
          if \<not> truthy transcript_text then
            (JSONResponse 504 [(''error'', Some ''Transcription timed out.'')], s1)
          else tpl_echo_bot_murf w (py_str transcript_text) s1)"

definition tpl_echo_bot :: "world \<Rightarrow> string \<Rightarrow> state \<Rightarrow> response \<times> state" where
  "tpl_echo_bot w file s =
     (let temp = temp_filename w; s0 = save_upload temp file s in
      case files s0 temp of
        None \<Rightarrow> (tpl_unexpected_error (file_not_found temp), s0)
      | Some f \<Rightarrow>
          (let s1 = log (Upload f) s0 in
           case assembly_upload w f of
             Inl e \<Rightarrow> (tpl_unexpected_error e, s1)
           | Inr upload_resp \<Rightarrow>
               if status_code upload_resp \<noteq> 200 then
                 remove_and_return tpl_unexpected_error temp
                   (JSONResponse 500 [(''error'', Some ''Upload failed''),
                      (''details'', Some (resp_text upload_resp))]) s1
               else
                 (case resp_json upload_resp of
                    Inl e \<Rightarrow> (tpl_unexpected_error e, s1)
                  | Inr upload_json \<Rightarrow>
                      (let upload_url = dict_get upload_json ''upload_url'' in
                       if \<not> truthy upload_url then
                         remove_and_return tpl_unexpected_error temp
                           (JSONResponse 500 [(''error'', Some ''Upload URL missing in response'')]) s1
                       else
                         (let s2 = log (StartTranscription upload_url) s1 in
                          case assembly_transcript w upload_url of
                            Inl e \<Rightarrow> (tpl_unexpected_error e, s2)
                          | Inr transcript_resp \<Rightarrow>
                              if status_code transcript_resp \<noteq> 200 then
                                remove_and_return tpl_unexpected_error temp
                                  (JSONResponse 500 [(''error'', Some ''Transcription start failed''),
                                     (''details'', Some (resp_text transcript_resp))]) s2
                              else
                                (case resp_json transcript_resp of
                                   Inl e \<Rightarrow> (tpl_unexpected_error e, s2)
                                 | Inr transcript_json \<Rightarrow>
                                     (let transcript_id = dict_get transcript_json ''id'' in
                                      if \<not> truthy transcript_id then
                                        remove_and_return tpl_unexpected_error temp
                                          (JSONResponse 500 [(''error'', Some ''Transcript ID missing in response'')]) s2
                                      else
                                        (case echo_poll_loop w
                                                (''https://api.assemblyai.com/v2/transcript/'' @ py_str transcript_id)
                                                20 0 s2 of
                                           (Raised e, s3) \<Rightarrow> (tpl_unexpected_error e, s3)
                                         | (Failed d, s3) \<Rightarrow>
                                             remove_and_return tpl_unexpected_error temp
                                               (JSONResponse 500 [(''error'', d)]) s3
                                         | (Completed t, s3) \<Rightarrow> tpl_echo_bot_after_poll w temp t s3
                                         | (Exhausted, s3) \<Rightarrow> tpl_echo_bot_after_poll w temp None s3))))))))"

section \<open>Reading traces and responses\<close>

text \<open>The calls a handler added to the trace.\<close>

definition new_calls :: "state \<Rightarrow> state \<Rightarrow> call list" where
  "new_calls s s' = drop (length (calls s)) (calls s')"

definition is_stt_call :: "call \<Rightarrow> bool" where
  "is_stt_call c =
     (case c of Upload f \<Rightarrow> True | StartTranscription u \<Rightarrow> True | Poll u \<Rightarrow> True
      | Sleep n \<Rightarrow> True | _ \<Rightarrow> False)"

definition is_tts_call :: "call \<Rightarrow> bool" where
  "is_tts_call c =
     (case c of MurfVoices \<Rightarrow> True | MurfGenerate v t \<Rightarrow> True | Download u \<Rightarrow> True | _ \<Rightarrow> False)"

definition is_murf_generate :: "call \<Rightarrow> bool" where
  "is_murf_generate c = (case c of MurfGenerate v t \<Rightarrow> True | _ \<Rightarrow> False)"

text \<open>An entry of a response body.\<close>

definition field :: "response \<Rightarrow> string \<Rightarrow> pyval option" where
  "field r k = map_of (body r) k"

section \<open>A sample world\<close>

text \<open>
  A world in which every provider answers well: the job is pending for two polls and then
  completed with the text \<^verbatim>\<open>hello\<close>.
\<close>

definition json_response :: "nat \<Rightarrow> 'j \<Rightarrow> 'j http_response" where
  "json_response code j = \<lparr>status_code = code, resp_text = [], resp_content = [], resp_json = Inr j\<rparr>"

definition sample_poll :: "string \<Rightarrow> nat \<Rightarrow> error + jdict http_response" where
  "sample_poll u i =
     (if i < 2 then Inr (json_response 200 [(''status'', Some ''processing'')])
      else Inr (json_response 200 [(''status'', Some ''completed''), (''text'', Some ''hello'')]))"

definition sample_world :: world where
  "sample_world =
     \<lparr>time_time = 1700000000,
      assembly_upload = (\<lambda>f. Inr (json_response 200 [(''upload_url'', Some ''https://cdn/u1'')])),
      assembly_transcript = (\<lambda>u. Inr (json_response 200 [(''id'', Some ''t1'')])),
      assembly_poll = sample_poll,
      gemini_client = Some (\<lambda>p. Inr (Some '' Hi there! '')),
      murf_voices = Inr (json_response 200 [[(''voiceId'', Some ''v1'')]]),
      murf_generate = (\<lambda>v t. Inr (json_response 200 [(''audioFile'', Some ''https://murf/a.mp3'')])),
      http_get = (\<lambda>u. Inr \<lparr>status_code = 200, resp_text = [], resp_content = ''MP3'',
                               resp_json = Inl (Exception ''not JSON'')\<rparr>)\<rparr>"

definition empty_state :: state where
  "empty_state = \<lparr>chat_store = Map.empty, files = Map.empty, calls = []\<rparr>"

text \<open>The URL a job is polled at.\<close>

definition poll_url_of :: "pyval \<Rightarrow> string" where
  "poll_url_of transcript_id = ''https://api.assemblyai.com/v2/transcript/'' @ py_str transcript_id"

text \<open>Worlds in which the job fails at once, and in which the second poll is a 502.\<close>

definition error_world :: world where
  "error_world =
     sample_world\<lparr>assembly_poll := \<lambda>u i. Inr (json_response 200
        [(''status'', Some ''error''), (''error'', Some ''bad audio'')])\<rparr>"

definition gateway_world :: world where
  "gateway_world =
     sample_world\<lparr>assembly_poll := \<lambda>u i.
        if i < 1 then sample_poll u i
        else Inr \<lparr>status_code = 502, resp_text = ''Bad Gateway'', resp_content = [],
                  resp_json = Inl (Exception ''not JSON'')\<rparr>\<rparr>"
section \<open>The poll loop\<close>

lemma polls_append: "polls (xs @ ys) = polls xs @ polls ys"
  by (simp add: polls_def)

lemma poll_loop_pending:
  "(\<And>k. k < n \<Longrightarrow> poll_pending (assembly_poll w u (i + k))) \<Longrightarrow>
   poll_loop w u iv (n + m) i s =
     poll_loop w u iv m (i + n) (s\<lparr>calls := calls s @ concat (replicate n [Poll u, Sleep iv])\<rparr>)"
proof (induction n arbitrary: i s)
  case 0
  then show ?case by simp
next
  case (Suc n)
  have p0: "poll_pending (assembly_poll w u i)"
    using Suc.prems [of 0] by simp
  have rest: "\<And>k. k < n \<Longrightarrow> poll_pending (assembly_poll w u (Suc i + k))"
    using Suc.prems [of "Suc _"] by simp
  obtain r j where r: "assembly_poll w u i = Inr r" "status_code r = 200" "resp_json r = Inr j"
      "dict_get j ''status'' \<noteq> Some ''completed''" "dict_get j ''status'' \<noteq> Some ''error''"
    using p0 unfolding poll_pending_def by (auto split: sum.splits)
  have step: "poll_loop w u iv (Suc (n + m)) i s =
      poll_loop w u iv (n + m) (Suc i) (log (Sleep iv) (log (Poll u) s))"
    by (simp only: poll_loop.simps Let_def r sum.case if_False if_True simp_thms)
  show ?case
    using Suc.IH [OF rest, of "log (Sleep iv) (log (Poll u) s)"] step
    by (simp add: log_def)
qed

lemma polls_replicate: "polls (concat (replicate n [Poll u, Sleep iv])) = replicate n (Poll u)"
  by (induction n) (simp_all add: polls_def is_poll_def)

lemma new_calls_append [simp]: "new_calls s (s\<lparr>calls := calls s @ cs\<rparr>) = cs"
  by (simp add: new_calls_def)

lemma poll_loop_timeout:
  assumes "\<And>k. k < n \<Longrightarrow> poll_pending (assembly_poll w u k)"
  shows "poll_loop w u iv n 0 s =
    (Inl (Exception ''Transcription timed out''),
     s\<lparr>calls := calls s @ concat (replicate n [Poll u, Sleep iv])\<rparr>)"
  using poll_loop_pending [of n w u 0 iv 0 s] assms by simp

lemma poll_loop_completed:
  assumes "\<And>i. i < k \<Longrightarrow> poll_pending (assembly_poll w u i)"
    and "poll_completed (assembly_poll w u k) t"
  shows "poll_loop w u iv (k + Suc m) 0 s =
    (Inr t, s\<lparr>calls := calls s @ concat (replicate k [Poll u, Sleep iv]) @ [Poll u]\<rparr>)"
proof -
  obtain r j where r: "assembly_poll w u k = Inr r" "status_code r = 200" "resp_json r = Inr j"
      "dict_get j ''status'' = Some ''completed''" "dict_get_default j ''text'' '''' = t"
    using assms(2) unfolding poll_completed_def by (auto split: sum.splits)
  have "poll_loop w u iv (k + Suc m) 0 s =
      poll_loop w u iv (Suc m) k (s\<lparr>calls := calls s @ concat (replicate k [Poll u, Sleep iv])\<rparr>)"
    using poll_loop_pending [of k w u 0 iv "Suc m" s] assms(1) by simp
  then show ?thesis
    by (simp add: r log_def)
qed

lemma poll_loop_error:
  assumes "\<And>i. i < k \<Longrightarrow> poll_pending (assembly_poll w u i)"
    and "poll_error (assembly_poll w u k) d"
  shows "poll_loop w u iv (k + Suc m) 0 s =
    (Inl (Exception (''AssemblyAI transcription error: '' @ py_str d)),
     s\<lparr>calls := calls s @ concat (replicate k [Poll u, Sleep iv]) @ [Poll u]\<rparr>)"
proof -
  obtain r j where r: "assembly_poll w u k = Inr r" "status_code r = 200" "resp_json r = Inr j"
      "dict_get j ''status'' = Some ''error''" "dict_get j ''error'' = d"
    using assms(2) unfolding poll_error_def by (auto split: sum.splits)
  have "poll_loop w u iv (k + Suc m) 0 s =
      poll_loop w u iv (Suc m) k (s\<lparr>calls := calls s @ concat (replicate k [Poll u, Sleep iv])\<rparr>)"
    using poll_loop_pending [of k w u 0 iv "Suc m" s] assms(1) by simp
  then show ?thesis
    by (simp add: r log_def)
qed

lemma poll_loop_non200:
  assumes "\<And>i. i < k \<Longrightarrow> poll_pending (assembly_poll w u i)"
    and "poll_non200 (assembly_poll w u k) c t"
  shows "poll_loop w u iv (k + Suc m) 0 s =
    (Inl (Exception (''AssemblyAI poll failed: '' @ show_nat c @ '' '' @ t)),
     s\<lparr>calls := calls s @ concat (replicate k [Poll u, Sleep iv]) @ [Poll u]\<rparr>)"
proof -
  obtain r where r: "assembly_poll w u k = Inr r" "status_code r \<noteq> 200" "status_code r = c"
      "resp_text r = t"
    using assms(2) unfolding poll_non200_def by (auto split: sum.splits)
  have "poll_loop w u iv (k + Suc m) 0 s =
      poll_loop w u iv (Suc m) k (s\<lparr>calls := calls s @ concat (replicate k [Poll u, Sleep iv])\<rparr>)"
    using poll_loop_pending [of k w u 0 iv "Suc m" s] assms(1) by simp
  then show ?thesis
    using r by (simp add: log_def)
qed

lemma polls_step: "polls (concat (replicate k [Poll u, Sleep iv]) @ [Poll u]) = replicate (Suc k) (Poll u)"
proof -
  have "polls [Poll u] = [Poll u]"
    by (simp add: polls_def is_poll_def)
  then show ?thesis
    by (simp add: polls_append polls_replicate replicate_append_same)
qed

section \<open>Claims about poll\_transcription\<close>

lemma poll_transcription_url:
  "poll_transcription w tid m iv s = poll_loop w (poll_url_of tid) iv (nat m) 0 s"
  by (simp add: poll_transcription_def poll_url_of_def)

text \<open>
  C3. When every poll of the budget answers HTTP 200 with a status that is neither
  \<^verbatim>\<open>completed\<close> nor \<^verbatim>\<open>error\<close>, \<^verbatim>\<open>poll_transcription\<close> makes exactly \<open>max_tries\<close> polls and
  raises the timeout. When the polls before the \<open>k\<close>-th are of that kind and the \<open>k\<close>-th,
  within the budget, says \<^verbatim>\<open>completed\<close>, it returns the text of that poll; when the \<open>k\<close>-th
  says \<^verbatim>\<open>error\<close>, it raises with the provider's error detail. In both cases it made
  \<open>k + 1\<close> polls.
\<close>

theorem poll_transcription_outcomes:
  "((\<forall>i<nat max_tries. poll_pending (assembly_poll w (poll_url_of tid) i)) \<longrightarrow>
      fst (poll_transcription w tid max_tries iv s) = Inl (Exception ''Transcription timed out'') \<and>
      polls (new_calls s (snd (poll_transcription w tid max_tries iv s)))
        = replicate (nat max_tries) (Poll (poll_url_of tid))) \<and>
   (k < nat max_tries \<and> (\<forall>i<k. poll_pending (assembly_poll w (poll_url_of tid) i)) \<and>
      poll_completed (assembly_poll w (poll_url_of tid) k) t \<longrightarrow>
      fst (poll_transcription w tid max_tries iv s) = Inr t \<and>
      polls (new_calls s (snd (poll_transcription w tid max_tries iv s)))
        = replicate (Suc k) (Poll (poll_url_of tid))) \<and>
   (k < nat max_tries \<and> (\<forall>i<k. poll_pending (assembly_poll w (poll_url_of tid) i)) \<and>
      poll_error (assembly_poll w (poll_url_of tid) k) d \<longrightarrow>
      fst (poll_transcription w tid max_tries iv s)
        = Inl (Exception (''AssemblyAI transcription error: '' @ py_str d)) \<and>
      polls (new_calls s (snd (poll_transcription w tid max_tries iv s)))
        = replicate (Suc k) (Poll (poll_url_of tid)))"
proof (intro conjI impI)
  assume "\<forall>i<nat max_tries. poll_pending (assembly_poll w (poll_url_of tid) i)"
  then have run: "poll_transcription w tid max_tries iv s =
      (Inl (Exception ''Transcription timed out''),
       s\<lparr>calls := calls s @ concat (replicate (nat max_tries) [Poll (poll_url_of tid), Sleep iv])\<rparr>)"
    by (simp add: poll_transcription_url poll_loop_timeout)
  show "fst (poll_transcription w tid max_tries iv s) = Inl (Exception ''Transcription timed out'')"
    by (simp add: run)
  show "polls (new_calls s (snd (poll_transcription w tid max_tries iv s)))
      = replicate (nat max_tries) (Poll (poll_url_of tid))"
    by (simp add: run polls_replicate)
next
  assume a: "k < nat max_tries \<and> (\<forall>i<k. poll_pending (assembly_poll w (poll_url_of tid) i)) \<and>
      poll_completed (assembly_poll w (poll_url_of tid) k) t"
  then have "k < nat max_tries"
    by simp
  then obtain m where m: "nat max_tries = k + Suc m"
    by (metis less_imp_Suc_add add_Suc_right)
  have run: "poll_transcription w tid max_tries iv s =
      (Inr t, s\<lparr>calls := calls s @ concat (replicate k [Poll (poll_url_of tid), Sleep iv])
                  @ [Poll (poll_url_of tid)]\<rparr>)"
    unfolding poll_transcription_url m
    using a poll_loop_completed [of k w "poll_url_of tid" t iv m s] by blast
  show "fst (poll_transcription w tid max_tries iv s) = Inr t"
    by (simp add: run)
  show "polls (new_calls s (snd (poll_transcription w tid max_tries iv s)))
      = replicate (Suc k) (Poll (poll_url_of tid))"
    by (simp only: run snd_conv new_calls_append polls_step)
next
  assume a: "k < nat max_tries \<and> (\<forall>i<k. poll_pending (assembly_poll w (poll_url_of tid) i)) \<and>
      poll_error (assembly_poll w (poll_url_of tid) k) d"
  then have "k < nat max_tries"
    by simp
  then obtain m where m: "nat max_tries = k + Suc m"
    by (metis less_imp_Suc_add add_Suc_right)
  have run: "poll_transcription w tid max_tries iv s =
      (Inl (Exception (''AssemblyAI transcription error: '' @ py_str d)),
       s\<lparr>calls := calls s @ concat (replicate k [Poll (poll_url_of tid), Sleep iv])
                  @ [Poll (poll_url_of tid)]\<rparr>)"
    unfolding poll_transcription_url m
    using a poll_loop_error [of k w "poll_url_of tid" d iv m s] by blast
  show "fst (poll_transcription w tid max_tries iv s)
      = Inl (Exception (''AssemblyAI transcription error: '' @ py_str d))"
    by (simp add: run)
  show "polls (new_calls s (snd (poll_transcription w tid max_tries iv s)))
      = replicate (Suc k) (Poll (poll_url_of tid))"
    by (simp only: run snd_conv new_calls_append polls_step)
qed

lemma sample_poll_pending: "i < 2 \<Longrightarrow> poll_pending (sample_poll u i)"
  by (simp add: sample_poll_def poll_pending_def json_response_def dict_get_def)

lemma sample_poll_completed: "poll_completed (sample_poll u 2) (Some ''hello'')"
  by (simp add: sample_poll_def poll_completed_def json_response_def dict_get_def dict_get_default_def)

theorem poll_transcription_outcomes_witness:
  "fst (poll_transcription sample_world (Some ''t1'') 2 3 empty_state)
     = Inl (Exception ''Transcription timed out'') \<and>
   polls (new_calls empty_state (snd (poll_transcription sample_world (Some ''t1'') 2 3 empty_state)))
     = replicate 2 (Poll (poll_url_of (Some ''t1''))) \<and>
   fst (poll_transcription sample_world (Some ''t1'') 60 3 empty_state) = Inr (Some ''hello'') \<and>
   polls (new_calls empty_state (snd (poll_transcription sample_world (Some ''t1'') 60 3 empty_state)))
     = replicate 3 (Poll (poll_url_of (Some ''t1''))) \<and>
   fst (poll_transcription
          error_world
          (Some ''t1'') 60 3 empty_state)
     = Inl (Exception ''AssemblyAI transcription error: bad audio'')"
proof -
  have p: "assembly_poll sample_world = sample_poll"
    by (simp add: sample_world_def)
  have a: "\<forall>i<nat 2. poll_pending (assembly_poll sample_world (poll_url_of (Some ''t1'')) i)"
    by (simp add: p sample_poll_pending)
  have b: "(2::nat) < nat 60 \<and>
      (\<forall>i<2. poll_pending (assembly_poll sample_world (poll_url_of (Some ''t1'')) i)) \<and>
      poll_completed (assembly_poll sample_world (poll_url_of (Some ''t1'')) 2) (Some ''hello'')"
    by (simp add: p sample_poll_pending sample_poll_completed)
  have c: "(0::nat) < nat 60 \<and>
      (\<forall>i<0. poll_pending (assembly_poll
          error_world
          (poll_url_of (Some ''t1'')) i)) \<and>
      poll_error (assembly_poll
          error_world
          (poll_url_of (Some ''t1'')) 0) (Some ''bad audio'')"
    by (simp add: error_world_def poll_error_def json_response_def dict_get_def)
  show ?thesis
    using
      poll_transcription_outcomes [of 2 sample_world "Some ''t1''" 3 empty_state 0 None None,
        THEN conjunct1, THEN mp, OF a]
      poll_transcription_outcomes [of 60 sample_world "Some ''t1''" 3 empty_state 2 "Some ''hello''" None,
        THEN conjunct2, THEN conjunct1, THEN mp, OF b]
      poll_transcription_outcomes [of 60 error_world "Some ''t1''" 3 empty_state 0 None "Some ''bad audio''",
        THEN conjunct2, THEN conjunct2, THEN mp, OF c]
    by (simp add: py_str_def numeral_3_eq_3 numeral_2_eq_2)
qed

text \<open>
  C10. When the polls before the \<open>k\<close>-th answer HTTP 200 with a pending status and the
  \<open>k\<close>-th, within the budget, answers with another status code, \<^verbatim>\<open>poll_transcription\<close>
  raises the poll failure at that poll: it made \<open>k + 1\<close> polls, however many were left.
\<close>

theorem poll_transcription_non200:
  "k < nat max_tries \<and> (\<forall>i<k. poll_pending (assembly_poll w (poll_url_of tid) i)) \<and>
      poll_non200 (assembly_poll w (poll_url_of tid) k) c t \<longrightarrow>
   fst (poll_transcription w tid max_tries iv s)
     = Inl (Exception (''AssemblyAI poll failed: '' @ show_nat c @ '' '' @ t)) \<and>
   new_calls s (snd (poll_transcription w tid max_tries iv s))
     = concat (replicate k [Poll (poll_url_of tid), Sleep iv]) @ [Poll (poll_url_of tid)] \<and>
   polls (new_calls s (snd (poll_transcription w tid max_tries iv s)))
     = replicate (Suc k) (Poll (poll_url_of tid))"
proof
  assume a: "k < nat max_tries \<and> (\<forall>i<k. poll_pending (assembly_poll w (poll_url_of tid) i)) \<and>
      poll_non200 (assembly_poll w (poll_url_of tid) k) c t"
  then have "k < nat max_tries"
    by simp
  then obtain m where m: "nat max_tries = k + Suc m"
    by (metis less_imp_Suc_add add_Suc_right)
  have run: "poll_transcription w tid max_tries iv s =
      (Inl (Exception (''AssemblyAI poll failed: '' @ show_nat c @ '' '' @ t)),
       s\<lparr>calls := calls s @ concat (replicate k [Poll (poll_url_of tid), Sleep iv])
                  @ [Poll (poll_url_of tid)]\<rparr>)"
    unfolding poll_transcription_url m
    using a poll_loop_non200 [of k w "poll_url_of tid" c t iv m s] by blast
  show "fst (poll_transcription w tid max_tries iv s)
     = Inl (Exception (''AssemblyAI poll failed: '' @ show_nat c @ '' '' @ t)) \<and>
   new_calls s (snd (poll_transcription w tid max_tries iv s))
     = concat (replicate k [Poll (poll_url_of tid), Sleep iv]) @ [Poll (poll_url_of tid)] \<and>
   polls (new_calls s (snd (poll_transcription w tid max_tries iv s)))
     = replicate (Suc k) (Poll (poll_url_of tid))"
    by (simp only: run snd_conv fst_conv new_calls_append polls_step simp_thms)
qed

theorem poll_transcription_non200_witness:
  "fst (poll_transcription
          gateway_world
          (Some ''t1'') 60 3 empty_state)
     = Inl (Exception ''AssemblyAI poll failed: 502 Bad Gateway'') \<and>
   new_calls empty_state (snd (poll_transcription
          gateway_world
          (Some ''t1'') 60 3 empty_state))
     = [Poll ''https://api.assemblyai.com/v2/transcript/t1'', Sleep 3,
        Poll ''https://api.assemblyai.com/v2/transcript/t1'']"
proof -
  have s502: "show_nat 502 = ''502''"
    by code_simp
  have a: "(1::nat) < nat 60 \<and>
      (\<forall>i<1. poll_pending (assembly_poll
          gateway_world
          (poll_url_of (Some ''t1'')) i)) \<and>
      poll_non200 (assembly_poll
          gateway_world
          (poll_url_of (Some ''t1'')) 1) 502 ''Bad Gateway''"
    by (simp add: gateway_world_def sample_poll_pending poll_non200_def)
  show ?thesis
    using poll_transcription_non200 [of 1 60 gateway_world "Some ''t1''" 502 "''Bad Gateway''" 3 empty_state,
        THEN mp, OF a]
    by (simp add: s502 poll_url_of_def py_str_def)
qed

end
